theory Spec2Isabelle
  imports Complex_Main "HOL-Library.Word"
begin

section \<open>Data model of the persistence client (utils/supabase/client.tsx)\<close>

text \<open>
  The interfaces \<^verbatim>\<open>StudySession\<close>, \<^verbatim>\<open>Todo\<close> and \<^verbatim>\<open>Analytics\<close> become records. Field names
  carry a prefix (\<open>s_\<close>, \<open>t_\<close>, \<open>a_\<close>) where the interfaces share a name (\<^verbatim>\<open>id\<close>,
  \<^verbatim>\<open>user_id\<close>, \<^verbatim>\<open>created_at\<close>, \<^verbatim>\<open>duration\<close>). Timestamps stay the ISO strings the code
  stores. JavaScript numbers that hold minutes, seconds, counters and millisecond clock
  values are modelled as unbounded integers. An optional member (\<^verbatim>\<open>end_time?\<close>) is an
  \<open>option\<close>. The surrogate key \<^verbatim>\<open>id\<close> of an analytics row is generated by the database
  and never read by the client, so the row is addressed by its unique \<^verbatim>\<open>user_id\<close>. The
  column \<^verbatim>\<open>updated_at\<close> is left out: a trigger of database-schema.sql overwrites it on
  every update and no function reads it.

  The title and the description of a todo are JavaScript strings: lists of 16-bit code
  units. The other strings (keys, subjects, session names, time strings) are taken over
  the code units below 256; \<open>utf16\<close> reads such a string as a JavaScript string.

  \<^verbatim>\<open>subjects_breakdown\<close> is the JSON object of the column, as the map from its own keys
  to their values. A value is a number of minutes (\<open>BNum\<close>) or a string that is not
  empty (\<open>BText\<close>), which is what \<^verbatim>\<open>+\<close> makes of a value that is not a number.
\<close>

type_synonym jsstring = "16 word list"

definition utf16 :: "string \<Rightarrow> jsstring" where
  "utf16 s = map of_char s"

datatype todo_status = Pending | Completed

datatype bd_value = BNum int | BText

record StudySession =
  s_id :: string
  s_user_id :: string
  session_name :: string
  subject :: string
  s_duration :: int
  start_time :: string
  end_time :: "string option"
  s_created_at :: string

record Todo =
  t_id :: string
  t_user_id :: string
  title :: jsstring
  description :: "jsstring option"
  status :: todo_status
  t_created_at :: string
  completed_at :: "string option"

record Analytics =
  a_user_id :: string
  total_sessions :: int
  total_study_time :: int
  total_completed_tasks :: int
  subjects_breakdown :: "string \<rightharpoonup> bd_value"

text \<open>
  \<^verbatim>\<open>Partial<StudySession>\<close> and \<^verbatim>\<open>Partial<Todo>\<close> as sent by the pages of this repository:
  every member may be absent (\<open>None\<close> is JavaScript's \<^verbatim>\<open>undefined\<close>, which the JSON
  payload omits). The key columns \<^verbatim>\<open>id\<close>, \<^verbatim>\<open>user_id\<close> and \<^verbatim>\<open>created_at\<close> are never part of a
  payload and are left out. \<^verbatim>\<open>Omit<Todo, 'id' | 'user_id' | 'created_at'>\<close> is the argument
  of \<^verbatim>\<open>createTodo\<close>.
\<close>

record StudySession_updates =
  u_session_name :: "string option"
  u_subject :: "string option"
  u_duration :: "int option"
  u_start_time :: "string option"
  u_end_time :: "string option"


record Todo_input =
  i_title :: jsstring
  i_description :: "jsstring option"
  i_status :: todo_status
  i_completed_at :: "string option"

text \<open>
  Every \<^verbatim>\<open>throw\<close> of the client is a value. \<open>NotAuthenticated\<close> is
  \<^verbatim>\<open>new Error('Not authenticated')\<close>, \<open>TodoTitleRequired\<close> is
  \<^verbatim>\<open>new Error('Todo title is required')\<close> (the validation failure of the task store),
  \<open>PostgrestError code\<close> is an error object of the database service with its
  \<^verbatim>\<open>code\<close>: \<^verbatim>\<open>PGRST116\<close> when \<^verbatim>\<open>.single()\<close> does not find exactly one row, \<^verbatim>\<open>23505\<close> for a
  duplicate key, \<^verbatim>\<open>23514\<close> for a violated \<^verbatim>\<open>CHECK\<close> constraint, \<^verbatim>\<open>22P05\<close> and \<^verbatim>\<open>22P02\<close> for
  text that the database cannot store, \<^verbatim>\<open>22007\<close> for a time string that it cannot read,
  \<^verbatim>\<open>22003\<close> for a number outside the range of \<^verbatim>\<open>INTEGER\<close>. \<open>TimeoutError\<close> is the
  rejection of the analytics page's timer and \<open>TypeError\<close> the runtime's error for
  reading a property of \<^verbatim>\<open>undefined\<close>.
\<close>

datatype error =
    NotAuthenticated
  | TodoTitleRequired
  | PostgrestError string
  | TimeoutError
  | TypeError

text \<open>
  The persistence collaborator as the client sees it: the signed-in user of
  \<^verbatim>\<open>supabase.auth.getUser()\<close> and the three tables. \<^verbatim>\<open>sessions\<close> and \<^verbatim>\<open>todos\<close> are keyed by
  their primary key \<^verbatim>\<open>id\<close>, \<^verbatim>\<open>analytics\<close> by its unique \<^verbatim>\<open>user_id\<close>.
  \<open>timestamptz_in\<close> is the database's reader for the type \<^verbatim>\<open>TIMESTAMPTZ\<close>: whether it
  accepts a time string. The store is
  reliable: a query fails only where a key, a column type, a \<^verbatim>\<open>CHECK\<close> constraint of
  database-schema.sql or \<^verbatim>\<open>.single()\<close> makes it fail; the signed-in user has a row in
  \<^verbatim>\<open>users\<close>, which \<^verbatim>\<open>getUserProfile\<close> creates before any page is shown. Network failures
  are not part of the store; where a page reacts to them, the outcome of the call is an
  argument of the page's function.
\<close>

record backend =
  auth_user :: "string option"
  sessions :: "string \<rightharpoonup> StudySession"
  todos :: "string \<rightharpoonup> Todo"
  analytics :: "string \<rightharpoonup> Analytics"
  timestamptz_in :: "string \<Rightarrow> bool"

subsection \<open>JavaScript helpers\<close>

text \<open>\<^verbatim>\<open>x || 0\<close> on a number that may be \<^verbatim>\<open>undefined\<close>: \<^verbatim>\<open>undefined\<close> and \<^verbatim>\<open>0\<close> are falsy.\<close>

definition or0 :: "int option \<Rightarrow> int" where
  "or0 x = (case x of None \<Rightarrow> 0 | Some v \<Rightarrow> if v = 0 then 0 else v)"

text \<open>
  \<^verbatim>\<open>String.prototype.trim\<close> removes white space and line terminators from both ends:
  U+0009 to U+000D, U+0020, U+00A0, U+1680, U+2000 to U+200A, U+2028, U+2029, U+202F,
  U+205F, U+3000 and U+FEFF.
\<close>

definition is_ws :: "16 word \<Rightarrow> bool" where
  "is_ws c = (c \<in> set [0x0009, 0x000A, 0x000B, 0x000C, 0x000D, 0x0020, 0x00A0, 0x1680,
                        0x2000, 0x2001, 0x2002, 0x2003, 0x2004, 0x2005, 0x2006, 0x2007,
                        0x2008, 0x2009, 0x200A, 0x2028, 0x2029, 0x202F, 0x205F, 0x3000,
                        0xFEFF])"

definition trim :: "jsstring \<Rightarrow> jsstring" where
  "trim s = rev (dropWhile is_ws (rev (dropWhile is_ws s)))"

text \<open>
  Text that the database refuses. A JavaScript string reaches the database inside the
  JSON body of the request, and the database's JSON reader cannot turn U+0000 into text
  (\<^verbatim>\<open>22P05\<close>) and rejects a surrogate that is not part of a pair (\<^verbatim>\<open>22P02\<close>).
  \<open>text_refusal s\<close> is the code of the first such place in \<open>s\<close>, \<open>None\<close> when the text
  is accepted. \<open>nul_free\<close> is the same test for a string of code units below 256.
\<close>

definition is_high_surrogate :: "16 word \<Rightarrow> bool" where
  "is_high_surrogate c = (0xD800 \<le> c \<and> c \<le> 0xDBFF)"

definition is_low_surrogate :: "16 word \<Rightarrow> bool" where
  "is_low_surrogate c = (0xDC00 \<le> c \<and> c \<le> 0xDFFF)"

fun text_refusal :: "jsstring \<Rightarrow> string option" where
  "text_refusal [] = None"
| "text_refusal [c] =
     (if c = 0 then Some ''22P05''
      else if is_high_surrogate c \<or> is_low_surrogate c then Some ''22P02''
      else None)"
| "text_refusal (c # d # cs) =
     (if c = 0 then Some ''22P05''
      else if is_high_surrogate c
        then (if is_low_surrogate d then text_refusal cs else Some ''22P02'')
      else if is_low_surrogate c then Some ''22P02''
      else text_refusal (d # cs))"

definition nul_free :: "string \<Rightarrow> bool" where
  "nul_free s = (CHR 0x00 \<notin> set s)"

text \<open>The range of the column type \<^verbatim>\<open>INTEGER\<close>.\<close>

definition int4 :: "int \<Rightarrow> bool" where
  "int4 n = (- 2147483648 \<le> n \<and> n \<le> 2147483647)"

text \<open>
  \<^verbatim>\<open>a % b\<close>: the remainder takes the sign of the dividend.
\<close>

definition js_rem :: "int \<Rightarrow> int \<Rightarrow> int" where
  "js_rem a b = sgn a * (\<bar>a\<bar> mod \<bar>b\<bar>)"

text \<open>
  Truthiness of an optional string and of an optional number, as \<^verbatim>\<open>a && b\<close> tests them:
  \<^verbatim>\<open>undefined\<close>, the empty string and \<^verbatim>\<open>0\<close> are falsy.
\<close>

definition truthy_str :: "string option \<Rightarrow> bool" where
  "truthy_str x = (case x of None \<Rightarrow> False | Some v \<Rightarrow> v \<noteq> [])"

definition truthy_num :: "int option \<Rightarrow> bool" where
  "truthy_num x = (case x of None \<Rightarrow> False | Some v \<Rightarrow> v \<noteq> 0)"

text \<open>A value used as a property key is converted to a string: \<^verbatim>\<open>obj[undefined]\<close> is
  \<^verbatim>\<open>obj["undefined"]\<close>.\<close>

definition prop_key :: "string option \<Rightarrow> string" where
  "prop_key x = (case x of None \<Rightarrow> ''undefined'' | Some v \<Rightarrow> v)"

subsection \<open>Analytics functions\<close>

text \<open>The \<^verbatim>\<open>CHECK\<close> constraints of table \<^verbatim>\<open>analytics\<close>.\<close>

definition check_analytics :: "Analytics \<Rightarrow> bool" where
  "check_analytics a =
     (0 \<le> total_sessions a \<and> 0 \<le> total_study_time a \<and> 0 \<le> total_completed_tasks a)"

text \<open>
  \<^verbatim>\<open>initializeUserAnalytics\<close> inserts a zeroed row; a duplicate key (\<^verbatim>\<open>23505\<close>) is
  ignored and any other error only logged, so the function never throws.
\<close>

definition initializeUserAnalytics :: "backend \<Rightarrow> string \<Rightarrow> backend" where
  "initializeUserAnalytics db userId =
     (case analytics db userId of
        Some _ \<Rightarrow> db
      | None \<Rightarrow>
          db\<lparr>analytics := (analytics db)(userId \<mapsto>
               \<lparr>a_user_id = userId, total_sessions = 0, total_study_time = 0,
                total_completed_tasks = 0, subjects_breakdown = Map.empty\<rparr>)\<rparr>)"

text \<open>
  \<^verbatim>\<open>getAnalytics\<close>: when the row is missing (\<^verbatim>\<open>PGRST116\<close>) it is created and the function
  calls itself again.
\<close>

function getAnalytics :: "backend \<Rightarrow> backend \<times> (error + Analytics)" where
  "getAnalytics db =
     (case auth_user db of
        None \<Rightarrow> (db, Inl NotAuthenticated)
      | Some user \<Rightarrow>
          (case analytics db user of
             Some data \<Rightarrow> (db, Inr data)
           | None \<Rightarrow> getAnalytics (initializeUserAnalytics db user)))"
  by pat_completeness auto
termination
  by (relation "measure (\<lambda>db.
        case auth_user db of None \<Rightarrow> 0
        | Some user \<Rightarrow> (if analytics db user = None then 1 else 0))")
     (auto simp: initializeUserAnalytics_def)

declare getAnalytics.simps [simp del]

text \<open>
  \<^verbatim>\<open>updatedSubjectsBreakdown[subject] = (updatedSubjectsBreakdown[subject] || 0) + duration\<close>
  on the copy \<^verbatim>\<open>{ ...analytics.subjects_breakdown }\<close>, which is an ordinary object. Reading
  a key that is not an own key finds the member that every object inherits, if the key
  names one: a function, or the prototype for \<^verbatim>\<open>__proto__\<close>; it is truthy and \<^verbatim>\<open>+\<close> turns
  it into a string. Assigning to \<^verbatim>\<open>__proto__\<close>, when it is not an own key, stores
  nothing, because the inherited setter ignores a string.
\<close>

definition Object_prototype_members :: "string list" where
  "Object_prototype_members =
     [''constructor'', ''__defineGetter__'', ''__defineSetter__'', ''hasOwnProperty'',
      ''__lookupGetter__'', ''__lookupSetter__'', ''isPrototypeOf'', ''propertyIsEnumerable'',
      ''toString'', ''valueOf'', ''__proto__'', ''toLocaleString'']"

definition plus_duration :: "(string \<rightharpoonup> bd_value) \<Rightarrow> string \<Rightarrow> int \<Rightarrow> bd_value" where
  "plus_duration obj k dur =
     (case obj k of
        Some (BNum v) \<Rightarrow> BNum (or0 (Some v) + dur)
      | Some BText \<Rightarrow> BText
      | None \<Rightarrow> if k \<in> set Object_prototype_members then BText else BNum (or0 None + dur))"

definition assign_key ::
  "(string \<rightharpoonup> bd_value) \<Rightarrow> string \<Rightarrow> bd_value \<Rightarrow> (string \<rightharpoonup> bd_value)" where
  "assign_key obj k v = (if k = ''__proto__'' \<and> obj k = None then obj else obj(k \<mapsto> v))"

text \<open>
  \<^verbatim>\<open>updateAnalyticsAfterSession\<close>. The database refuses the update when the key written
  into the JSON column holds U+0000, when a counter leaves the range of \<^verbatim>\<open>INTEGER\<close>, or
  when a \<^verbatim>\<open>CHECK\<close> constraint fails.
\<close>

definition updateAnalyticsAfterSession ::
  "backend \<Rightarrow> string \<Rightarrow> int \<Rightarrow> backend \<times> (error + unit)" where
  "updateAnalyticsAfterSession db subj dur =
     (case auth_user db of
        None \<Rightarrow> (db, Inl NotAuthenticated)
      | Some user \<Rightarrow>
          (case getAnalytics db of
             (db1, Inl e) \<Rightarrow> (db1, Inl e)
           | (db1, Inr a) \<Rightarrow>
               (let updatedSubjectsBreakdown =
                      assign_key (subjects_breakdown a) subj
                        (plus_duration (subjects_breakdown a) subj dur);
                    row = a\<lparr>total_sessions := total_sessions a + 1,
                            total_study_time := total_study_time a + dur,
                            subjects_breakdown := updatedSubjectsBreakdown\<rparr>
                in if \<not> nul_free subj then (db1, Inl (PostgrestError ''22P05''))
                   else if \<not> (int4 (total_sessions row) \<and> int4 (total_study_time row))
                     then (db1, Inl (PostgrestError ''22003''))
                   else if check_analytics row
                     then (db1\<lparr>analytics := (analytics db1)(user \<mapsto> row)\<rparr>, Inr ())
                   else (db1, Inl (PostgrestError ''23514'')))))"


subsection \<open>Study session functions\<close>

text \<open>
  \<^verbatim>\<open>.update(updates)\<close> writes the members present in the payload. Time strings are
  taken to be well-formed timestamps.
\<close>

definition apply_session_updates :: "StudySession \<Rightarrow> StudySession_updates \<Rightarrow> StudySession" where
  "apply_session_updates row upd =
     row\<lparr>session_name := (case u_session_name upd of None \<Rightarrow> session_name row | Some v \<Rightarrow> v),
         subject := (case u_subject upd of None \<Rightarrow> subject row | Some v \<Rightarrow> v),
         s_duration := (case u_duration upd of None \<Rightarrow> s_duration row | Some v \<Rightarrow> v),
         start_time := (case u_start_time upd of None \<Rightarrow> start_time row | Some v \<Rightarrow> v),
         end_time := (case u_end_time upd of None \<Rightarrow> end_time row | Some v \<Rightarrow> Some v)\<rparr>"

text \<open>
  The payload of a session update is converted to the column types before any row is
  touched: text with U+0000 is refused, and so is a time string that the database
  cannot read. Durations are minutes of study; the upper bound of \<^verbatim>\<open>INTEGER\<close> is not
  checked for the column \<^verbatim>\<open>duration\<close>.
\<close>

definition session_payload_refusal :: "backend \<Rightarrow> StudySession_updates \<Rightarrow> string option" where
  "session_payload_refusal db upd =
     (if (case u_session_name upd of None \<Rightarrow> False | Some v \<Rightarrow> \<not> nul_free v) \<or>
         (case u_subject upd of None \<Rightarrow> False | Some v \<Rightarrow> \<not> nul_free v)
        then Some ''22P05''
      else if (case u_start_time upd of None \<Rightarrow> False | Some v \<Rightarrow> \<not> timestamptz_in db v) \<or>
              (case u_end_time upd of None \<Rightarrow> False | Some v \<Rightarrow> \<not> timestamptz_in db v)
        then Some ''22007''
      else None)"

text \<open>
  \<^verbatim>\<open>updateStudySession\<close>: the row with this \<^verbatim>\<open>id\<close> and the caller's \<^verbatim>\<open>user_id\<close> is
  updated and returned by \<^verbatim>\<open>.single()\<close>; \<^verbatim>\<open>duration\<close> has the constraint
  \<^verbatim>\<open>CHECK (duration >= 0)\<close>. Then \<^verbatim>\<open>if (updates.end_time && updates.duration)\<close> the
  analytics are updated with \<^verbatim>\<open>updates.subject!\<close>, which is \<^verbatim>\<open>undefined\<close> when the payload
  has no subject.
\<close>

definition updateStudySession ::
  "backend \<Rightarrow> string \<Rightarrow> StudySession_updates \<Rightarrow> backend \<times> (error + StudySession)" where
  "updateStudySession db sessionId updates =
     (case auth_user db of
        None \<Rightarrow> (db, Inl NotAuthenticated)
      | Some user \<Rightarrow>
          (case session_payload_refusal db updates of
             Some code \<Rightarrow> (db, Inl (PostgrestError code))
           | None \<Rightarrow>
          (case sessions db sessionId of
             None \<Rightarrow> (db, Inl (PostgrestError ''PGRST116''))
           | Some row \<Rightarrow>
               if s_user_id row \<noteq> user then (db, Inl (PostgrestError ''PGRST116''))
               else
                 (let data = apply_session_updates row updates
                  in if s_duration data < 0 then (db, Inl (PostgrestError ''23514''))
                     else
                       (let db1 = db\<lparr>sessions := (sessions db)(sessionId \<mapsto> data)\<rparr>
                        in if truthy_str (u_end_time updates) \<and> truthy_num (u_duration updates)
                           then (case updateAnalyticsAfterSession db1
                                        (prop_key (u_subject updates)) (or0 (u_duration updates)) of
                                   (db2, Inl e) \<Rightarrow> (db2, Inl e)
                                 | (db2, Inr _) \<Rightarrow> (db2, Inr data))
                           else (db1, Inr data))))))"

subsection \<open>Todo functions\<close>

text \<open>
  \<^verbatim>\<open>createTodo\<close>: \<^verbatim>\<open>if (!todo.title?.trim()) throw new Error('Todo title is required')\<close>,
  then the row is inserted with the trimmed title. \<open>new_id\<close> is the key and \<open>db_now\<close>
  the \<^verbatim>\<open>created_at\<close> that the database generates. The insert is refused when the title
  or the description is text that the database cannot store, or \<^verbatim>\<open>completed_at\<close> a time
  string that it cannot read.
\<close>

definition todo_insert_refusal ::
  "backend \<Rightarrow> jsstring \<Rightarrow> jsstring option \<Rightarrow> string option \<Rightarrow> string option" where
  "todo_insert_refusal db ttl dsc cmp =
     (case text_refusal ttl of
        Some code \<Rightarrow> Some code
      | None \<Rightarrow>
          (case (case dsc of None \<Rightarrow> None | Some v \<Rightarrow> text_refusal v) of
             Some code \<Rightarrow> Some code
           | None \<Rightarrow>
               (case cmp of
                  None \<Rightarrow> None
                | Some v \<Rightarrow> if timestamptz_in db v then None else Some ''22007'')))"

definition createTodo ::
  "backend \<Rightarrow> Todo_input \<Rightarrow> string \<Rightarrow> string \<Rightarrow> backend \<times> (error + Todo)" where
  "createTodo db todo new_id db_now =
     (case auth_user db of
        None \<Rightarrow> (db, Inl NotAuthenticated)
      | Some user \<Rightarrow>
          if trim (i_title todo) = [] then (db, Inl TodoTitleRequired)
          else
            (case todo_insert_refusal db (trim (i_title todo)) (i_description todo)
                    (i_completed_at todo) of
               Some code \<Rightarrow> (db, Inl (PostgrestError code))
             | None \<Rightarrow>
            (case todos db new_id of
               Some _ \<Rightarrow> (db, Inl (PostgrestError ''23505''))
             | None \<Rightarrow>
                 (let data = \<lparr>t_id = new_id, t_user_id = user, title = trim (i_title todo),
                              description = i_description todo, status = i_status todo,
                              t_created_at = db_now, completed_at = i_completed_at todo\<rparr>
                  in (db\<lparr>todos := (todos db)(new_id \<mapsto> data)\<rparr>, Inr data)))))"





section \<open>The timer page (components/TimerPage.tsx)\<close>

datatype PomodoroPhase = Work | ShortBreak | LongBreak

text \<open>
  The React state of \<^verbatim>\<open>TimerPage\<close> that the functions below read or write. \<open>timeLeft\<close>
  is a JavaScript number of seconds; \<open>None\<close> is \<^verbatim>\<open>NaN\<close>.
\<close>

record TimerPage_state =
  timeLeft :: "int option"
  isActive :: bool
  currentPhase :: PomodoroPhase
  cycleCount :: int
  currentSession :: "StudySession option"
  sessionName :: string
  sessionSubject :: string
  workDuration :: int
  shortBreakDuration :: int
  longBreakDuration :: int

text \<open>\<^verbatim>\<open>phases[p].duration\<close>\<close>

definition phases_duration :: "TimerPage_state \<Rightarrow> PomodoroPhase \<Rightarrow> int" where
  "phases_duration st p =
     (case p of Work \<Rightarrow> workDuration st
      | ShortBreak \<Rightarrow> shortBreakDuration st
      | LongBreak \<Rightarrow> longBreakDuration st)"

text \<open>
  The computation of \<^verbatim>\<open>remainingTime\<close> in \<^verbatim>\<open>checkActiveSession\<close>. \<open>Date_value\<close> is the
  host's \<^verbatim>\<open>new Date(s).getTime()\<close>, \<open>None\<close> for a string that does not parse
  (\<^verbatim>\<open>NaN\<close>); \<open>now\<close> is \<^verbatim>\<open>new Date().getTime()\<close>. \<^verbatim>\<open>Math.floor(x / 60000)\<close> on an integer
  \<open>x\<close> is \<open>x div 60000\<close>, which rounds down. \<^verbatim>\<open>Math.floor\<close> and \<^verbatim>\<open>Math.max\<close> of
  \<^verbatim>\<open>NaN\<close> are \<^verbatim>\<open>NaN\<close>.
\<close>

definition remainingTime :: "(string \<Rightarrow> int option) \<Rightarrow> int \<Rightarrow> int \<Rightarrow> string \<Rightarrow> int option" where
  "remainingTime Date_value wd now start =
     (case Date_value start of
        None \<Rightarrow> None
      | Some sessionStart \<Rightarrow>
          (let elapsedMinutes = (now - sessionStart) div 60000
           in Some (max 0 (wd * 60 - elapsedMinutes * 60))))"

text \<open>
  \<^verbatim>\<open>checkActiveSession\<close>: \<open>active\<close> is the outcome of \<^verbatim>\<open>getActiveStudySession()\<close>. An
  error is caught and logged, \<^verbatim>\<open>null\<close> changes nothing, a session is adopted and the
  time left is set from its start time.
\<close>

definition checkActiveSession ::
  "(string \<Rightarrow> int option) \<Rightarrow> TimerPage_state \<Rightarrow> error + StudySession option \<Rightarrow> int
     \<Rightarrow> TimerPage_state" where
  "checkActiveSession Date_value st active now =
     (case active of
        Inl e \<Rightarrow> st
      | Inr None \<Rightarrow> st
      | Inr (Some activeSession) \<Rightarrow>
          st\<lparr>currentSession := Some activeSession,
             sessionName := session_name activeSession,
             sessionSubject := subject activeSession,
             timeLeft := remainingTime Date_value (workDuration st) now
                           (start_time activeSession)\<rparr>)"

text \<open>
  \<^verbatim>\<open>handlePhaseComplete\<close>. After a work phase the session's duration is written with
  \<^verbatim>\<open>updateStudySession\<close>; when that call throws, the promise of the handler is rejected
  and the statements after it do not run. The handler ends with
  \<^verbatim>\<open>checkActiveSession()\<close>, whose fetch outcome is \<open>active\<close>.
\<close>

definition handlePhaseComplete ::
  "(string \<Rightarrow> int option) \<Rightarrow> TimerPage_state \<Rightarrow> backend \<Rightarrow> error + StudySession option \<Rightarrow> int
     \<Rightarrow> TimerPage_state \<times> backend" where
  "handlePhaseComplete Date_value st db active now =
     (let st1 = st\<lparr>isActive := False\<rparr>
      in case currentSession st of
           None \<Rightarrow> (st1, db)
         | Some cs \<Rightarrow>
             if currentPhase st = Work then
               (let newCycleCount = cycleCount st + 1;
                    nextPhase = (if js_rem newCycleCount 4 = 0 then LongBreak else ShortBreak)
                in case updateStudySession db (s_id cs)
                          \<lparr>u_session_name = None, u_subject = None,
                           u_duration = Some (or0 (Some (s_duration cs)) + workDuration st),
                           u_start_time = None, u_end_time = None\<rparr> of
                     (db1, Inl e) \<Rightarrow> (st1, db1)
                   | (db1, Inr _) \<Rightarrow>
                       (checkActiveSession Date_value
                          (st1\<lparr>cycleCount := newCycleCount, currentPhase := nextPhase,
                               timeLeft := Some (phases_duration st nextPhase * 60)\<rparr>)
                          active now,
                        db1))
             else
               (let newCycleCount = cycleCount st;
                    nextPhase = Work
                in (checkActiveSession Date_value
                      (st1\<lparr>cycleCount := newCycleCount, currentPhase := nextPhase,
                           timeLeft := Some (phases_duration st nextPhase * 60)\<rparr>)
                      active now,
                    db)))"

section \<open>The analytics page (components/AnalyticsPage.tsx)\<close>

text \<open>
  \<^verbatim>\<open>loadAnalyticsData\<close> reads members of the session objects by name. A value read from
  an object of the database is a string, a number or \<^verbatim>\<open>null\<close>; reading a member that the
  object does not have gives \<^verbatim>\<open>undefined\<close>, here \<open>None\<close>. \<open>StudySession_row\<close> lists the
  members of a session as \<^verbatim>\<open>getStudySessions()\<close> returns it (interface
  \<^verbatim>\<open>StudySession\<close>, table \<^verbatim>\<open>sessions\<close>; the column \<^verbatim>\<open>updated_at\<close>, which the page does
  not read, is left out as before).
\<close>

datatype jsval = JStr string | JNum int | JNull

definition StudySession_row :: "StudySession \<Rightarrow> (string \<times> jsval) list" where
  "StudySession_row s =
     [(''id'', JStr (s_id s)),
      (''user_id'', JStr (s_user_id s)),
      (''session_name'', JStr (session_name s)),
      (''subject'', JStr (subject s)),
      (''duration'', JNum (s_duration s)),
      (''start_time'', JStr (start_time s)),
      (''end_time'', (case end_time s of None \<Rightarrow> JNull | Some e \<Rightarrow> JStr e)),
      (''created_at'', JStr (s_created_at s))]"

definition get_member :: "StudySession \<Rightarrow> string \<Rightarrow> jsval option" where
  "get_member s k = map_of (StudySession_row s) k"

text \<open>
  The functions of the JavaScript host that the page calls, as a record: the time value
  of \<^verbatim>\<open>new Date(s)\<close> for a string (\<open>None\<close> for an invalid date), the conversion of a
  string to a number (\<open>None\<close> for \<^verbatim>\<open>NaN\<close>), \<^verbatim>\<open>setHours(0, 0, 0, 0)\<close> and
  \<^verbatim>\<open>setHours(23, 59, 59, 999)\<close> in the local time zone, and the two formats of
  \<^verbatim>\<open>toLocaleDateString\<close> that the page uses. Clock values are milliseconds.
\<close>

record host =
  h_date_value :: "string \<Rightarrow> int option"
  h_to_number :: "string \<Rightarrow> rat option"
  h_set_hours_0 :: "int \<Rightarrow> int"
  h_set_hours_end :: "int \<Rightarrow> int"
  h_weekday_short :: "int \<Rightarrow> string"
  h_month_day :: "int \<Rightarrow> string"

definition truthy :: "jsval option \<Rightarrow> bool" where
  "truthy v = (case v of None \<Rightarrow> False | Some JNull \<Rightarrow> False
               | Some (JStr s) \<Rightarrow> s \<noteq> [] | Some (JNum n) \<Rightarrow> n \<noteq> 0)"

text \<open>\<^verbatim>\<open>new Date(v).getTime()\<close>; \<open>None\<close> is the invalid date.\<close>

definition new_Date :: "host \<Rightarrow> jsval option \<Rightarrow> int option" where
  "new_Date h v = (case v of None \<Rightarrow> None | Some JNull \<Rightarrow> Some 0
                   | Some (JStr s) \<Rightarrow> h_date_value h s | Some (JNum n) \<Rightarrow> Some n)"

text \<open>The numeric value of \<open>v\<close> in \<^verbatim>\<open>v / 60\<close>; \<open>None\<close> is \<^verbatim>\<open>NaN\<close>.\<close>

definition to_number :: "host \<Rightarrow> jsval option \<Rightarrow> rat option" where
  "to_number h v = (case v of None \<Rightarrow> None | Some JNull \<Rightarrow> Some 0
                    | Some (JStr s) \<Rightarrow> h_to_number h s | Some (JNum n) \<Rightarrow> Some (of_int n))"

text \<open>
  Comparisons of dates (\<^verbatim>\<open>a >= b\<close>, \<^verbatim>\<open>a <= b\<close>) are false when a side is invalid.
  Numbers are rationals, so the rounding error of floating-point division is not
  modelled; \<^verbatim>\<open>Math.round(x)\<close> is \<open>\<lfloor>x + 1/2\<rfloor>\<close>.
\<close>

definition date_ge :: "int option \<Rightarrow> int \<Rightarrow> bool" where
  "date_ge a b = (case a of None \<Rightarrow> False | Some t \<Rightarrow> b \<le> t)"

definition date_le :: "int option \<Rightarrow> int \<Rightarrow> bool" where
  "date_le a b = (case a of None \<Rightarrow> False | Some t \<Rightarrow> t \<le> b)"

definition num_add :: "rat option \<Rightarrow> rat option \<Rightarrow> rat option" where
  "num_add a b = (case a of None \<Rightarrow> None
                  | Some x \<Rightarrow> (case b of None \<Rightarrow> None | Some y \<Rightarrow> Some (x + y)))"

definition num_div60 :: "rat option \<Rightarrow> rat option" where
  "num_div60 a = (case a of None \<Rightarrow> None | Some x \<Rightarrow> Some (x / 60))"

definition round1 :: "rat option \<Rightarrow> rat option" where
  "round1 a = (case a of None \<Rightarrow> None
               | Some x \<Rightarrow> Some (of_int \<lfloor>x * 10 + 1 / 2\<rfloor> / 10))"

datatype timeRange = Week | Month | Year

record day_entry =
  day :: string
  hours :: "rat option"
  d_sessions :: nat

record task_slice =
  ts_name :: string
  ts_value :: int
  ts_color :: string

record session_entry =
  se_id :: string
  se_name :: string
  se_date :: string
  se_duration :: int
  se_tasksCompleted :: int
  se_pomodoroType :: string

record streak_entry =
  st_date :: string
  studied :: bool

record stats =
  totalStudyTime :: int
  tasksCompleted :: int
  cardsMastered :: int
  studyStreak :: int
  totalSessions :: int
  avgSessionLength :: int
  thisWeekHours :: rat
  thisWeekSessions :: int

record AnalyticsData =
  studyHoursData :: "day_entry list"
  taskCompletionData :: "task_slice list"
  sessionData :: "session_entry list"
  streakData :: "streak_entry list"
  stats :: stats

text \<open>The interface \<^verbatim>\<open>User\<close> of client.tsx, the type of the page's \<^verbatim>\<open>user\<close>.\<close>

datatype auth_provider = Email | Google | Apple

record preferences =
  darkMode :: bool
  notifications :: bool
  defaultPomodoroTime :: int
  defaultShortBreak :: int
  defaultLongBreak :: int
  studyGoal :: int

record User =
  usr_id :: string
  email :: string
  full_name :: string
  avatar_url :: "string option"
  usr_auth_provider :: auth_provider
  usr_created_at :: string
  usr_preferences :: preferences

definition day_ms :: int where
  "day_ms = 24 * 60 * 60 * 1000"

definition getFilterDate :: "timeRange \<Rightarrow> int \<Rightarrow> int" where
  "getFilterDate tr now =
     (case tr of Week \<Rightarrow> now - 7 * day_ms
      | Month \<Rightarrow> now - 30 * day_ms
      | Year \<Rightarrow> now - 365 * day_ms)"

definition filteredSessions :: "host \<Rightarrow> timeRange \<Rightarrow> int \<Rightarrow> StudySession list \<Rightarrow> StudySession list" where
  "filteredSessions h tr now all_sessions =
     filter (\<lambda>session. truthy (get_member session ''completedAt'') \<and>
                        date_ge (new_Date h (get_member session ''completedAt'')) (getFilterDate tr now))
            all_sessions"

definition daysToShow :: "timeRange \<Rightarrow> nat" where
  "daysToShow tr = (case tr of Week \<Rightarrow> 7 | Month \<Rightarrow> 30 | Year \<Rightarrow> 365)"

text \<open>The body of the loop \<^verbatim>\<open>for (let i = daysToShow - 1; i >= 0; i--)\<close> for one \<open>i\<close>.\<close>

definition studyHours_entry ::
  "host \<Rightarrow> timeRange \<Rightarrow> int \<Rightarrow> StudySession list \<Rightarrow> nat \<Rightarrow> day_entry" where
  "studyHours_entry h tr now filtered i =
     (let date = now - int i * day_ms;
          dayName = (if tr = Week then h_weekday_short h date else h_month_day h date);
          dayStart = h_set_hours_0 h date;
          dayEnd = h_set_hours_end h dayStart;
          daySessions = filter (\<lambda>session.
                           (let sessionDate = new_Date h (get_member session ''completedAt'')
                            in date_ge sessionDate dayStart \<and> date_le sessionDate dayEnd))
                         filtered;
          dayHours = foldl (\<lambda>total session.
                        num_add total (num_div60 (to_number h (get_member session ''totalFocusMinutes''))))
                      (Some 0) daySessions
      in \<lparr>day = dayName, hours = round1 dayHours, d_sessions = length daySessions\<rparr>)"

text \<open>The loop: \<open>studyHours_loop h tr now filtered n\<close> pushes the entries for
  \<open>i = n - 1\<close> down to \<open>i = 0\<close>, in this order.\<close>

fun studyHours_loop ::
  "host \<Rightarrow> timeRange \<Rightarrow> int \<Rightarrow> StudySession list \<Rightarrow> nat \<Rightarrow> day_entry list" where
  "studyHours_loop h tr now filtered 0 = []"
| "studyHours_loop h tr now filtered (Suc i) =
     studyHours_entry h tr now filtered i # studyHours_loop h tr now filtered i"

definition compute_studyHoursData ::
  "host \<Rightarrow> timeRange \<Rightarrow> int \<Rightarrow> StudySession list \<Rightarrow> day_entry list" where
  "compute_studyHoursData h tr now all_sessions =
     studyHours_loop h tr now (filteredSessions h tr now all_sessions) (daysToShow tr)"

text \<open>
  The \<^verbatim>\<open>try\<close> block. \<open>fetched\<close> is the outcome of the race between the two fetches
  (\<^verbatim>\<open>getAnalytics()\<close>, \<^verbatim>\<open>getStudySessions()\<close>) and the 20 second timer. After the loop
  the block evaluates \<^verbatim>\<open>user.stats.tasksCompleted\<close>. \<^verbatim>\<open>User\<close> has no member \<^verbatim>\<open>stats\<close>, and
  neither has a row of table \<^verbatim>\<open>users\<close>, which is what \<^verbatim>\<open>App\<close> passes: \<^verbatim>\<open>user.stats\<close> is
  \<^verbatim>\<open>undefined\<close> and reading \<^verbatim>\<open>tasksCompleted\<close> from it throws a \<^verbatim>\<open>TypeError\<close>. The
  statements after it (session list, streak calendar, \<^verbatim>\<open>setAnalyticsData\<close> with the
  computed values) are never reached.
\<close>

definition loadAnalyticsData_try ::
  "host \<Rightarrow> timeRange \<Rightarrow> User \<Rightarrow> int \<Rightarrow> error + (Analytics \<times> StudySession list)
     \<Rightarrow> error + AnalyticsData" where
  "loadAnalyticsData_try h tr user now fetched =
     (case fetched of
        Inl e \<Rightarrow> Inl e
      | Inr (analyticsResponse, sessionsResponse) \<Rightarrow>
          (let all_sessions = sessionsResponse;
               studyHours = compute_studyHoursData h tr now all_sessions
           in Inl TypeError))"

text \<open>The data that the \<^verbatim>\<open>catch\<close> block passes to \<^verbatim>\<open>setAnalyticsData\<close>.\<close>

definition fallback_data :: AnalyticsData where
  "fallback_data =
     \<lparr>studyHoursData = [],
      taskCompletionData =
        [\<lparr>ts_name = ''Completed'', ts_value = 0, ts_color = ''var(--chart-1)''\<rparr>,
         \<lparr>ts_name = ''Pending'', ts_value = 100, ts_color = ''var(--chart-2)''\<rparr>],
      sessionData = [],
      streakData = [],
      stats = \<lparr>totalStudyTime = 0, tasksCompleted = 0, cardsMastered = 0, studyStreak = 0,
               totalSessions = 0, avgSessionLength = 0, thisWeekHours = 0,
               thisWeekSessions = 0\<rparr>\<rparr>"

text \<open>\<^verbatim>\<open>loadAnalyticsData\<close>: the value of \<^verbatim>\<open>analyticsData\<close> when it has run.\<close>

definition loadAnalyticsData ::
  "host \<Rightarrow> timeRange \<Rightarrow> User \<Rightarrow> int \<Rightarrow> error + (Analytics \<times> StudySession list)
     \<Rightarrow> AnalyticsData" where
  "loadAnalyticsData h tr user now fetched =
     (case loadAnalyticsData_try h tr user now fetched of
        Inl e \<Rightarrow> fallback_data
      | Inr d \<Rightarrow> d)"

section \<open>Reading the aggregate\<close>

text \<open>
  The aggregate of an owner as the first access sees it: the stored row, or the zeroed
  row that \<^verbatim>\<open>initializeUserAnalytics\<close> inserts when there is none.
\<close>

definition zero_analytics :: "string \<Rightarrow> Analytics" where
  "zero_analytics userId =
     \<lparr>a_user_id = userId, total_sessions = 0, total_study_time = 0,
      total_completed_tasks = 0, subjects_breakdown = Map.empty\<rparr>"

definition aggregate_of :: "backend \<Rightarrow> string \<Rightarrow> Analytics" where
  "aggregate_of db userId =
     (case analytics db userId of None \<Rightarrow> zero_analytics userId | Some a \<Rightarrow> a)"

section \<open>Example values\<close>

text \<open>
  Concrete values at which the functions are evaluated below. The clock value
  \<open>1704715200000\<close> is Monday 2024-01-08, 12:00 UTC. \<open>example_Date_value\<close> is the host's
  date parser on the time strings of the examples; \<open>example_host\<close> is a host in the time
  zone UTC, given on the values the week view uses.
\<close>

definition example_session :: StudySession where
  "example_session =
     \<lparr>s_id = ''s1'', s_user_id = ''user-1'', session_name = ''Math'', subject = ''Mathematics'',
      s_duration = 0, start_time = ''2024-01-08T12:00:00.000Z'', end_time = None,
      s_created_at = ''2024-01-08T12:00:00.000Z''\<rparr>"

definition closed_session :: StudySession where
  "closed_session =
     \<lparr>s_id = ''s2'', s_user_id = ''user-1'', session_name = ''Math'', subject = ''Mathematics'',
      s_duration = 60, start_time = ''2024-01-08T11:00:00.000Z'',
      end_time = Some ''2024-01-08T12:00:00.000Z'',
      s_created_at = ''2024-01-08T11:00:00.000Z''\<rparr>"

definition example_todo :: Todo where
  "example_todo =
     \<lparr>t_id = ''t1'', t_user_id = ''user-1'', title = utf16 ''Finish reading'',
      description = None,
      status = Pending, t_created_at = ''2024-01-08T09:00:00.000Z'', completed_at = None\<rparr>"

definition example_Date_value :: "string \<Rightarrow> int option" where
  "example_Date_value s =
     (if s = ''2024-01-08T12:00:00.000Z'' then Some 1704715200000
      else if s = ''2024-01-08T11:00:00.000Z'' then Some 1704711600000
      else None)"

definition example_backend :: backend where
  "example_backend =
     \<lparr>auth_user = Some ''user-1'',
      sessions = [''s1'' \<mapsto> example_session],
      todos = [''t1'' \<mapsto> example_todo],
      analytics = Map.empty,
      timestamptz_in = (\<lambda>s. example_Date_value s \<noteq> None)\<rparr>"

definition example_host :: host where
  "example_host =
     \<lparr>h_date_value = example_Date_value,
      h_to_number = (\<lambda>s. None),
      h_set_hours_0 = (\<lambda>t. t - t mod day_ms),
      h_set_hours_end = (\<lambda>t. t - t mod day_ms + (day_ms - 1)),
      h_weekday_short = (\<lambda>t. [''Thu'', ''Fri'', ''Sat'', ''Sun'', ''Mon'', ''Tue'', ''Wed'']
                              ! nat ((t div day_ms) mod 7)),
      h_month_day = (\<lambda>t. [])\<rparr>"

definition example_timer :: TimerPage_state where
  "example_timer =
     \<lparr>timeLeft = Some 0, isActive = True, currentPhase = Work, cycleCount = 3,
      currentSession = Some example_session, sessionName = ''Math'',
      sessionSubject = ''Mathematics'', workDuration = 25, shortBreakDuration = 5,
      longBreakDuration = 15\<rparr>"

definition example_user :: User where
  "example_user =
     \<lparr>usr_id = ''user-1'', email = ''a@b.c'', full_name = ''A'', avatar_url = None,
      usr_auth_provider = Email, usr_created_at = ''2024-01-01T00:00:00.000Z'',
      usr_preferences = \<lparr>darkMode = False, notifications = True, defaultPomodoroTime = 25,
        defaultShortBreak = 5, defaultLongBreak = 15, studyGoal = 20\<rparr>\<rparr>"



definition close_payload :: "int \<Rightarrow> StudySession_updates" where
  "close_payload d =
     \<lparr>u_session_name = None, u_subject = None, u_duration = Some d, u_start_time = None,
      u_end_time = Some ''2024-01-08T12:00:00.000Z''\<rparr>"

text \<open>
  The payload that closes a session: an end time, a duration and, possibly, a subject.
  The timer page's \<^verbatim>\<open>handleEndSession\<close> sends it without a subject.
\<close>

definition closing_payload :: "string \<Rightarrow> int \<Rightarrow> string option \<Rightarrow> StudySession_updates" where
  "closing_payload e d sopt =
     \<lparr>u_session_name = None, u_subject = sopt, u_duration = Some d, u_start_time = None,
      u_end_time = Some e\<rparr>"

section \<open>The analytics functions\<close>

lemma getAnalytics_found:
  "auth_user db = Some u \<Longrightarrow> analytics db u = Some a \<Longrightarrow> getAnalytics db = (db, Inr a)"
  by (simp add: getAnalytics.simps[of db])

text \<open>
  For a signed-in caller \<^verbatim>\<open>getAnalytics\<close> returns after at most one insertion, with the
  aggregate of the first access.
\<close>

lemma getAnalytics_result:
  assumes "auth_user db = Some u"
  shows "getAnalytics db = (initializeUserAnalytics db u, Inr (aggregate_of db u))"
proof (cases "analytics db u")
  case None
  let ?db1 = "initializeUserAnalytics db u"
  have a: "auth_user ?db1 = Some u"
    using assms by (simp add: initializeUserAnalytics_def None)
  have r: "analytics ?db1 u = Some (zero_analytics u)"
    by (simp add: initializeUserAnalytics_def None zero_analytics_def)
  have "getAnalytics db = getAnalytics ?db1"
    using assms None by (simp add: getAnalytics.simps[of db])
  also have "\<dots> = (?db1, Inr (zero_analytics u))"
    by (rule getAnalytics_found[OF a r])
  finally show ?thesis
    by (simp add: aggregate_of_def None)
next
  case (Some a)
  then show ?thesis
    using assms by (simp add: getAnalytics_found initializeUserAnalytics_def aggregate_of_def)
qed

lemma updateAnalyticsAfterSession_ok:
  assumes "auth_user db = Some u" "check_analytics (aggregate_of db u)" "0 \<le> d" "nul_free s"
    "total_sessions (aggregate_of db u) + 1 \<le> 2147483647"
    "total_study_time (aggregate_of db u) + d \<le> 2147483647"
  shows "updateAnalyticsAfterSession db s d =
     (db\<lparr>analytics := (analytics db)(u \<mapsto>
          (aggregate_of db u)\<lparr>total_sessions := total_sessions (aggregate_of db u) + 1,
             total_study_time := total_study_time (aggregate_of db u) + d,
             subjects_breakdown :=
               assign_key (subjects_breakdown (aggregate_of db u)) s
                 (plus_duration (subjects_breakdown (aggregate_of db u)) s d)\<rparr>)\<rparr>, Inr ())"
  using assms
  by (cases "analytics db u")
     (auto simp add: updateAnalyticsAfterSession_def getAnalytics_result Let_def
        check_analytics_def int4_def initializeUserAnalytics_def aggregate_of_def)


lemma example_aggregate: "aggregate_of example_backend ''user-1'' = zero_analytics ''user-1''"
  by (simp add: aggregate_of_def example_backend_def)

lemma example_check: "check_analytics (aggregate_of example_backend ''user-1'')"
  by (simp add: example_aggregate zero_analytics_def check_analytics_def)

lemma example_auth: "auth_user example_backend = Some ''user-1''"
  by (simp add: example_backend_def)


lemma example_session_row: "sessions example_backend ''s1'' = Some example_session"
  by (simp add: example_backend_def)

section \<open>The task store\<close>

lemma trim_empty_iff: "trim s = [] \<longleftrightarrow> (\<forall>c\<in>set s. is_ws c)"
proof -
  have "trim s = [] \<longleftrightarrow> dropWhile is_ws (rev (dropWhile is_ws s)) = []"
    by (simp add: trim_def)
  also have "\<dots> \<longleftrightarrow> (\<forall>c\<in>set (dropWhile is_ws s). is_ws c)"
    by simp
  also have "\<dots> \<longleftrightarrow> (\<forall>c\<in>set s. is_ws c)"
  proof
    assume a: "\<forall>c\<in>set (dropWhile is_ws s). is_ws c"
    have "dropWhile is_ws s = []"
    proof (rule ccontr)
      assume ne: "dropWhile is_ws s \<noteq> []"
      then have "\<not> is_ws (hd (dropWhile is_ws s))" by (rule hd_dropWhile)
      moreover have "hd (dropWhile is_ws s) \<in> set (dropWhile is_ws s)"
        using ne by simp
      ultimately show False using a by blast
    qed
    then show "\<forall>c\<in>set s. is_ws c" by simp
  next
    assume "\<forall>c\<in>set s. is_ws c"
    then show "\<forall>c\<in>set (dropWhile is_ws s). is_ws c"
      using set_dropWhileD by fastforce
  qed
  finally show ?thesis .
qed

lemma is_ws_not_refused:
  assumes "is_ws c"
  shows "c \<noteq> 0 \<and> \<not> is_high_surrogate c \<and> \<not> is_low_surrogate c"
  using assms by (auto simp add: is_ws_def is_high_surrogate_def is_low_surrogate_def)

text \<open>White space in front of a text, or behind it, does not change whether the
  database stores it.\<close>

lemma text_refusal_dropWhile:
  "text_refusal s = None \<Longrightarrow> text_refusal (dropWhile is_ws s) = None"
proof (induction s rule: text_refusal.induct)
  case 1
  then show ?case by simp
next
  case (2 c)
  then show ?case by simp
next
  case (3 c d cs)
  show ?case
  proof (cases "is_ws c")
    case True
    then have "text_refusal (c # d # cs) = text_refusal (d # cs)"
      using is_ws_not_refused[of c] by simp
    then show ?thesis
      using 3 True is_ws_not_refused[of c] by simp
  next
    case False
    then show ?thesis using 3(3) by simp
  qed
qed

lemma text_refusal_append_ws:
  "text_refusal (p @ w) = None \<Longrightarrow> \<forall>c\<in>set w. is_ws c \<Longrightarrow> text_refusal p = None"
proof (induction p rule: text_refusal.induct)
  case 1
  then show ?case by simp
next
  case (2 c)
  show ?case
  proof (cases w)
    case Nil
    then show ?thesis using 2 by simp
  next
    case (Cons d ds)
    then have "is_ws d" using 2(2) by simp
    then have "\<not> is_low_surrogate d" using is_ws_not_refused by blast
    then show ?thesis
      using 2(1) Cons by (simp split: if_splits)
  qed
next
  case (3 c d cs)
  then show ?case by (simp split: if_splits)
qed

lemma text_refusal_trim:
  assumes "text_refusal s = None"
  shows "text_refusal (trim s) = None"
proof -
  let ?a = "dropWhile is_ws s"
  have a: "text_refusal ?a = None" using assms by (rule text_refusal_dropWhile)
  have "?a = rev (dropWhile is_ws (rev ?a)) @ rev (takeWhile is_ws (rev ?a))"
    by (metis rev_append rev_rev_ident takeWhile_dropWhile_id)
  moreover have "\<forall>c\<in>set (rev (takeWhile is_ws (rev ?a))). is_ws c"
    by (auto dest: set_takeWhileD)
  ultimately have "text_refusal (rev (dropWhile is_ws (rev ?a))) = None"
    using a text_refusal_append_ws by metis
  then show ?thesis by (simp add: trim_def)
qed

text \<open>
  Claim C8 says that creation succeeds for every title with content other than white
  space. The title \<^verbatim>\<open>'a\u0000b'\<close> has such content, and \<^verbatim>\<open>createTodo\<close> fails with the
  database's error \<^verbatim>\<open>22P05\<close> and stores nothing.
\<close>

theorem C8_nul_title_counterexample:
  "(\<exists>c\<in>set [0x61, 0x00, 0x62]. \<not> is_ws c) \<and>
   createTodo example_backend
      \<lparr>i_title = [0x61, 0x00, 0x62], i_description = None, i_status = Pending,
       i_completed_at = None\<rparr>
      ''t2'' ''2024-01-08T12:00:00.000Z'' = (example_backend, Inl (PostgrestError ''22P05''))"
  by (simp add: createTodo_def example_backend_def trim_def is_ws_def todo_insert_refusal_def
      is_high_surrogate_def is_low_surrogate_def)

text \<open>
  Claim C8 as the code has it. For a signed-in caller, \<^verbatim>\<open>createTodo\<close> with a title that
  is empty or consists of white space only fails with the error
  \<^verbatim>\<open>'Todo title is required'\<close> and leaves the store as it was. With a title that has a
  code unit other than white space, and that holds neither U+0000 nor a surrogate
  outside a pair, it succeeds and stores the todo with the trimmed title, provided
  that the description, if any, is such text too, that \<^verbatim>\<open>completed_at\<close>, if any, is a
  time string the database reads, and that the generated key is fresh. When the
  database refuses the trimmed title, the call fails with the database's error and
  stores nothing.
\<close>

theorem C8_createTodo_title_validation:
  assumes "auth_user db = Some u"
  shows "((\<forall>c\<in>set (i_title todo). is_ws c) \<longrightarrow>
            createTodo db todo new_id db_now = (db, Inl TodoTitleRequired)) \<and>
         ((\<exists>c\<in>set (i_title todo). \<not> is_ws c) \<and> text_refusal (i_title todo) = None \<and>
          (case i_description todo of None \<Rightarrow> True | Some v \<Rightarrow> text_refusal v = None) \<and>
          (case i_completed_at todo of None \<Rightarrow> True | Some v \<Rightarrow> timestamptz_in db v) \<and>
          todos db new_id = None \<longrightarrow>
            (\<exists>t. createTodo db todo new_id db_now =
                    (db\<lparr>todos := (todos db)(new_id \<mapsto> t)\<rparr>, Inr t) \<and>
                 title t = trim (i_title todo) \<and> t_user_id t = u \<and> t_id t = new_id \<and>
                 status t = i_status todo)) \<and>
         ((\<exists>c\<in>set (i_title todo). \<not> is_ws c) \<and>
          text_refusal (trim (i_title todo)) = Some code \<longrightarrow>
            createTodo db todo new_id db_now = (db, Inl (PostgrestError code)))"
proof (intro conjI impI)
  assume "\<forall>c\<in>set (i_title todo). is_ws c"
  then show "createTodo db todo new_id db_now = (db, Inl TodoTitleRequired)"
    using assms trim_empty_iff[of "i_title todo"] by (simp add: createTodo_def)
next
  assume h: "(\<exists>c\<in>set (i_title todo). \<not> is_ws c) \<and> text_refusal (i_title todo) = None \<and>
          (case i_description todo of None \<Rightarrow> True | Some v \<Rightarrow> text_refusal v = None) \<and>
          (case i_completed_at todo of None \<Rightarrow> True | Some v \<Rightarrow> timestamptz_in db v) \<and>
          todos db new_id = None"
  then have ne: "trim (i_title todo) \<noteq> []"
    using trim_empty_iff[of "i_title todo"] by blast
  have tt: "text_refusal (trim (i_title todo)) = None"
    using h text_refusal_trim by blast
  have r: "todo_insert_refusal db (trim (i_title todo)) (i_description todo)
             (i_completed_at todo) = None"
    using h tt by (auto simp add: todo_insert_refusal_def split: option.splits)
  show "\<exists>t. createTodo db todo new_id db_now =
                    (db\<lparr>todos := (todos db)(new_id \<mapsto> t)\<rparr>, Inr t) \<and>
                 title t = trim (i_title todo) \<and> t_user_id t = u \<and> t_id t = new_id \<and>
                 status t = i_status todo"
    using assms h ne r by (simp add: createTodo_def Let_def)
next
  assume h: "(\<exists>c\<in>set (i_title todo). \<not> is_ws c) \<and>
          text_refusal (trim (i_title todo)) = Some code"
  then have ne: "trim (i_title todo) \<noteq> []"
    using trim_empty_iff[of "i_title todo"] by blast
  show "createTodo db todo new_id db_now = (db, Inl (PostgrestError code))"
    using assms h ne by (simp add: createTodo_def todo_insert_refusal_def)
qed

theorem C8_createTodo_title_validation_witness:
  "createTodo example_backend
      \<lparr>i_title = utf16 ''  '', i_description = None, i_status = Pending, i_completed_at = None\<rparr>
      ''t2'' ''2024-01-08T12:00:00.000Z'' = (example_backend, Inl TodoTitleRequired) \<and>
   (\<exists>t. snd (createTodo example_backend
      \<lparr>i_title = utf16 '' Read '', i_description = None, i_status = Pending,
       i_completed_at = None\<rparr>
      ''t2'' ''2024-01-08T12:00:00.000Z'') = Inr t \<and> title t = utf16 ''Read'') \<and>
   createTodo example_backend
      \<lparr>i_title = [0x20, 0xD83D, 0x61], i_description = None, i_status = Pending,
       i_completed_at = None\<rparr>
      ''t2'' ''2024-01-08T12:00:00.000Z'' = (example_backend, Inl (PostgrestError ''22P02''))"
proof -
  have f: "todos example_backend ''t2'' = None" by (simp add: example_backend_def)
  have tr: "trim (utf16 '' Read '') = utf16 ''Read''"
    by (simp add: utf16_def trim_def is_ws_def)
  have ok: "text_refusal (utf16 '' Read '') = None"
    by (simp add: utf16_def is_high_surrogate_def is_low_surrogate_def)
  have ws: "\<forall>c\<in>set (utf16 ''  ''). is_ws c" "\<exists>c\<in>set (utf16 '' Read ''). \<not> is_ws c"
    "\<exists>c\<in>set [0x20, 0xD83D, 0x61]. \<not> is_ws c"
    by (simp_all add: utf16_def is_ws_def)
  have bad: "text_refusal (trim [0x20, 0xD83D, 0x61]) = Some ''22P02''"
    by (simp add: trim_def is_ws_def is_high_surrogate_def is_low_surrogate_def)
  have w1: "createTodo example_backend
      \<lparr>i_title = utf16 ''  '', i_description = None, i_status = Pending, i_completed_at = None\<rparr>
      ''t2'' ''2024-01-08T12:00:00.000Z'' = (example_backend, Inl TodoTitleRequired)"
    using C8_createTodo_title_validation [OF example_auth,
        of "\<lparr>i_title = utf16 ''  '', i_description = None, i_status = Pending,
             i_completed_at = None\<rparr>"
           "''t2''" "''2024-01-08T12:00:00.000Z''" "''22P02''"] ws(1)
    by simp
  have w2: "\<exists>t. snd (createTodo example_backend
      \<lparr>i_title = utf16 '' Read '', i_description = None, i_status = Pending,
       i_completed_at = None\<rparr>
      ''t2'' ''2024-01-08T12:00:00.000Z'') = Inr t \<and> title t = utf16 ''Read''"
    using C8_createTodo_title_validation [OF example_auth,
        of "\<lparr>i_title = utf16 '' Read '', i_description = None, i_status = Pending,
             i_completed_at = None\<rparr>"
           "''t2''" "''2024-01-08T12:00:00.000Z''" "''22P02''"] ws(2) ok f tr
    by auto
  have w3: "createTodo example_backend
      \<lparr>i_title = [0x20, 0xD83D, 0x61], i_description = None, i_status = Pending,
       i_completed_at = None\<rparr>
      ''t2'' ''2024-01-08T12:00:00.000Z'' = (example_backend, Inl (PostgrestError ''22P02''))"
    using C8_createTodo_title_validation [OF example_auth,
        of "\<lparr>i_title = [0x20, 0xD83D, 0x61], i_description = None, i_status = Pending,
             i_completed_at = None\<rparr>"
           "''t2''" "''2024-01-08T12:00:00.000Z''" "''22P02''"] ws(3) bad
    by simp
  show ?thesis using w1 w2 w3 by simp
qed








section \<open>Closing a session\<close>

lemma prop_key_nul_free:
  "(case sopt of None \<Rightarrow> True | Some s \<Rightarrow> nul_free s) \<Longrightarrow> nul_free (prop_key sopt)"
  by (cases sopt) (simp_all add: prop_key_def nul_free_def)

text \<open>What \<^verbatim>\<open>updateStudySession\<close> returns and stores for an accepted close.\<close>

lemma updateStudySession_close:
  assumes "auth_user db = Some u" "sessions db sid = Some row" "s_user_id row = u"
    "e \<noteq> []" "timestamptz_in db e" "0 < d"
    "case sopt of None \<Rightarrow> True | Some s \<Rightarrow> nul_free s"
    "check_analytics (aggregate_of db u)"
    "total_sessions (aggregate_of db u) + 1 \<le> 2147483647"
    "total_study_time (aggregate_of db u) + d \<le> 2147483647"
  shows "updateStudySession db sid (closing_payload e d sopt) =
     (db\<lparr>sessions := (sessions db)(sid \<mapsto> apply_session_updates row (closing_payload e d sopt)),
         analytics := (analytics db)(u \<mapsto>
           (aggregate_of db u)\<lparr>total_sessions := total_sessions (aggregate_of db u) + 1,
              total_study_time := total_study_time (aggregate_of db u) + d,
              subjects_breakdown :=
                assign_key (subjects_breakdown (aggregate_of db u)) (prop_key sopt)
                  (plus_duration (subjects_breakdown (aggregate_of db u)) (prop_key sopt) d)\<rparr>)\<rparr>,
      Inr (apply_session_updates row (closing_payload e d sopt)))"
proof -
  let ?upd = "closing_payload e d sopt"
  let ?db1 = "db\<lparr>sessions := (sessions db)(sid \<mapsto> apply_session_updates row ?upd)\<rparr>"
  have a: "auth_user ?db1 = Some u" using assms(1) by simp
  have g: "aggregate_of ?db1 u = aggregate_of db u" by (simp add: aggregate_of_def)
  have c: "check_analytics (aggregate_of ?db1 u)" using assms(8) by (simp add: g)
  have d: "0 \<le> d" using assms(6) by simp
  have k: "nul_free (prop_key sopt)" using assms(7) by (rule prop_key_nul_free)
  have b1: "total_sessions (aggregate_of ?db1 u) + 1 \<le> 2147483647"
    using assms(9) by (simp add: g)
  have b2: "total_study_time (aggregate_of ?db1 u) + d \<le> 2147483647"
    using assms(10) by (simp add: g)
  have dur: "s_duration (apply_session_updates row ?upd) = d"
    by (simp add: apply_session_updates_def closing_payload_def)
  have p: "u_end_time ?upd = Some e" "u_duration ?upd = Some d" "u_subject ?upd = sopt"
    by (simp_all add: closing_payload_def)
  have r: "session_payload_refusal db ?upd = None"
    using assms(5,7)
    by (cases sopt) (simp_all add: session_payload_refusal_def closing_payload_def)
  show ?thesis
    using assms(1-4) d assms(6)
    by (simp add: updateStudySession_def r Let_def dur p truthy_str_def truthy_num_def or0_def
        updateAnalyticsAfterSession_ok[OF a c d k b1 b2] g)
qed


lemma example_bounds:
  "total_sessions (aggregate_of example_backend ''user-1'') + 1 \<le> 2147483647"
  "total_study_time (aggregate_of example_backend ''user-1'') + 25 \<le> 2147483647"
  by (simp_all add: example_aggregate zero_analytics_def)

lemma example_end_time:
  "''2024-01-08T12:00:00.000Z'' \<noteq> []"
  "timestamptz_in example_backend ''2024-01-08T12:00:00.000Z''"
  by (simp_all add: example_backend_def example_Date_value_def)

lemma example_owner: "s_user_id example_session = ''user-1''"
  by (simp add: example_session_def)


lemma example_close_25:
  "analytics (fst (updateStudySession example_backend ''s1'' (close_payload 25))) \<noteq>
     analytics example_backend"
proof -
  have d: "(0::int) < 25" by simp
  have n: "case None :: string option of None \<Rightarrow> True | Some s \<Rightarrow> nul_free s" by simp
  have p: "close_payload 25 = closing_payload ''2024-01-08T12:00:00.000Z'' 25 None"
    by (simp add: close_payload_def closing_payload_def)
  have "analytics (fst (updateStudySession example_backend ''s1'' (close_payload 25))) ''user-1''
      \<noteq> None"
    unfolding p
    by (simp add: updateStudySession_close[OF example_auth example_session_row example_owner
          example_end_time d n example_check example_bounds])
  moreover have "analytics example_backend ''user-1'' = None"
    by (simp add: example_backend_def)
  ultimately show ?thesis by metis
qed




text \<open>
  Claim C10. \<^verbatim>\<open>updateStudySession\<close> with a payload whose duration is 0 leaves the
  analytics table unchanged, whatever else the payload holds: no counter and no entry
  of the subject breakdown moves. The analytics change only when the payload has both a
  non-empty \<^verbatim>\<open>end_time\<close> and a duration other than 0.
\<close>

theorem C10_zero_duration_close_no_analytics:
  "(u_duration upd = Some 0 \<longrightarrow>
      analytics (fst (updateStudySession db sid upd)) = analytics db) \<and>
   (analytics (fst (updateStudySession db sid upd)) \<noteq> analytics db \<longrightarrow>
      (\<exists>e d. u_end_time upd = Some e \<and> e \<noteq> [] \<and> u_duration upd = Some d \<and> d \<noteq> 0))"
  by (auto simp add: updateStudySession_def Let_def truthy_str_def truthy_num_def
      split: option.splits if_splits)

text \<open>
  Closing the example session with duration 0 changes no aggregate; closing it with
  duration 25 does, and that payload has an end time and a duration.
\<close>

theorem C10_zero_duration_close_no_analytics_witness:
  "analytics (fst (updateStudySession example_backend ''s1'' (close_payload 0))) =
     analytics example_backend \<and>
   analytics (fst (updateStudySession example_backend ''s1'' (close_payload 25))) \<noteq>
     analytics example_backend \<and>
   (\<exists>e d. u_end_time (close_payload 25) = Some e \<and> e \<noteq> [] \<and>
          u_duration (close_payload 25) = Some d \<and> d \<noteq> 0)"
proof -
  have z: "u_duration (close_payload 0) = Some 0" by (simp add: close_payload_def)
  show ?thesis
    using C10_zero_duration_close_no_analytics [of "close_payload 0" example_backend "''s1''"]
      C10_zero_duration_close_no_analytics [of "close_payload 25" example_backend "''s1''"]
      example_close_25
    by (simp add: z)
qed

section \<open>The timer page\<close>

lemma js_rem_4_zero: "js_rem n 4 = 0 \<longleftrightarrow> n mod 4 = 0"
proof -
  have "js_rem n 4 = 0 \<longleftrightarrow> \<bar>n\<bar> mod 4 = 0"
    by (auto simp add: js_rem_def sgn_if)
  also have "\<dots> \<longleftrightarrow> n mod 4 = 0"
    by (simp add: abs_if) presburger
  finally show ?thesis .
qed

text \<open>\<^verbatim>\<open>checkActiveSession\<close> writes neither the cycle count nor the phase.\<close>

lemma checkActiveSession_frame:
  "cycleCount (checkActiveSession dv st active now) = cycleCount st \<and>
   currentPhase (checkActiveSession dv st active now) = currentPhase st"
  by (simp add: checkActiveSession_def split: sum.splits option.splits)

lemma updateStudySession_duration_ok:
  assumes "auth_user db = Some u" "sessions db sid = Some row" "s_user_id row = u" "0 \<le> d"
  shows "\<exists>db1 data. updateStudySession db sid
           \<lparr>u_session_name = None, u_subject = None, u_duration = Some d,
            u_start_time = None, u_end_time = None\<rparr> = (db1, Inr data)"
  using assms
  by (simp add: updateStudySession_def session_payload_refusal_def Let_def
      apply_session_updates_def truthy_str_def)

text \<open>
  Claim C1. With a current session, for every cycle count \<open>c\<close>: when a work phase
  completes and its duration update is accepted (the owner is signed in, the session is
  the owner's, the new duration is not negative), the cycle count becomes \<open>c + 1\<close> and
  the phase becomes \<^verbatim>\<open>long-break\<close> if \<open>(c + 1) mod 4 = 0\<close> and \<^verbatim>\<open>short-break\<close> otherwise;
  when a short or long break completes, the phase becomes \<^verbatim>\<open>work\<close> and the cycle count
  stays \<open>c\<close>.
\<close>

theorem C1_phase_transition:
  assumes "currentSession st = Some cs"
  shows "(currentPhase st = Work \<and> auth_user db = Some u \<and> sessions db (s_id cs) = Some row \<and>
          s_user_id row = u \<and> 0 \<le> s_duration cs + workDuration st \<longrightarrow>
            cycleCount (fst (handlePhaseComplete dv st db active now)) = cycleCount st + 1 \<and>
            currentPhase (fst (handlePhaseComplete dv st db active now)) =
              (if (cycleCount st + 1) mod 4 = 0 then LongBreak else ShortBreak)) \<and>
         (currentPhase st = ShortBreak \<or> currentPhase st = LongBreak \<longrightarrow>
            cycleCount (fst (handlePhaseComplete dv st db active now)) = cycleCount st \<and>
            currentPhase (fst (handlePhaseComplete dv st db active now)) = Work)"
proof (intro conjI impI)
  assume h: "currentPhase st = Work \<and> auth_user db = Some u \<and>
          sessions db (s_id cs) = Some row \<and>
          s_user_id row = u \<and> 0 \<le> s_duration cs + workDuration st"
  then obtain db1 data where upd: "updateStudySession db (s_id cs)
           \<lparr>u_session_name = None, u_subject = None,
            u_duration = Some (s_duration cs + workDuration st),
            u_start_time = None, u_end_time = None\<rparr> = (db1, Inr data)"
    using updateStudySession_duration_ok[of db u "s_id cs" row "s_duration cs + workDuration st"]
    by blast
  have o: "or0 (Some (s_duration cs)) = s_duration cs" by (simp add: or0_def)
  show "cycleCount (fst (handlePhaseComplete dv st db active now)) = cycleCount st + 1"
    using assms h upd
    by (simp add: handlePhaseComplete_def Let_def o checkActiveSession_frame)
  show "currentPhase (fst (handlePhaseComplete dv st db active now)) =
              (if (cycleCount st + 1) mod 4 = 0 then LongBreak else ShortBreak)"
    using assms h upd
    by (simp add: handlePhaseComplete_def Let_def o checkActiveSession_frame js_rem_4_zero)
next
  assume h: "currentPhase st = ShortBreak \<or> currentPhase st = LongBreak"
  then have nw: "currentPhase st \<noteq> Work" by auto
  show "cycleCount (fst (handlePhaseComplete dv st db active now)) = cycleCount st"
    using assms nw by (simp add: handlePhaseComplete_def Let_def checkActiveSession_frame)
  show "currentPhase (fst (handlePhaseComplete dv st db active now)) = Work"
    using assms nw by (simp add: handlePhaseComplete_def Let_def checkActiveSession_frame)
qed

text \<open>
  The fourth work phase of the example ends in a long break; a short break ends in
  work with the count kept.
\<close>

theorem C1_phase_transition_witness:
  "cycleCount (fst (handlePhaseComplete example_Date_value example_timer example_backend
      (Inr (Some example_session)) 1704715200000)) = 4 \<and>
   currentPhase (fst (handlePhaseComplete example_Date_value example_timer example_backend
      (Inr (Some example_session)) 1704715200000)) = LongBreak \<and>
   cycleCount (fst (handlePhaseComplete example_Date_value
      (example_timer\<lparr>currentPhase := ShortBreak\<rparr>)
      example_backend (Inr (Some example_session)) 1704715200000)) = 3 \<and>
   currentPhase (fst (handlePhaseComplete example_Date_value
      (example_timer\<lparr>currentPhase := ShortBreak\<rparr>)
      example_backend (Inr (Some example_session)) 1704715200000)) = Work"
proof -
  have s: "currentSession example_timer = Some example_session"
    by (simp add: example_timer_def)
  have s': "currentSession (example_timer\<lparr>currentPhase := ShortBreak\<rparr>) = Some example_session"
    by (simp add: example_timer_def)
  have p: "currentPhase example_timer = Work" "cycleCount example_timer = 3"
    "workDuration example_timer = 25" "s_id example_session = ''s1''"
    "s_user_id example_session = ''user-1''" "s_duration example_session = 0"
    by (simp_all add: example_timer_def example_session_def)
  show ?thesis
    using C1_phase_transition [OF s, of example_backend "''user-1''" example_session
                example_Date_value "Inr (Some example_session)" 1704715200000]
      C1_phase_transition [OF s', of example_backend "''user-1''" example_session
                example_Date_value "Inr (Some example_session)" 1704715200000]
    by (simp add: p example_auth example_session_row)
qed

text \<open>
  Claim C3. For a session whose start time parses to \<open>t \<le> now\<close> and a work duration
  greater than 0, \<^verbatim>\<open>checkActiveSession\<close> sets the time left to
  \<open>max 0 (workDuration * 60 - \<lfloor>(now - t) / 60000\<rfloor> * 60)\<close>, which lies between 0 and
  \<open>workDuration * 60\<close>, and is 0 when the elapsed time exceeds the work duration.
\<close>

theorem C3_remaining_time_in_range:
  assumes "dv (start_time s) = Some t" and "t \<le> now" and "0 < workDuration st"
  shows "\<exists>r. timeLeft (checkActiveSession dv st (Inr (Some s)) now) = Some r \<and>
             r = max 0 (workDuration st * 60 - ((now - t) div 60000) * 60) \<and>
             0 \<le> r \<and> r \<le> workDuration st * 60 \<and>
             (workDuration st * 60000 < now - t \<longrightarrow> r = 0)"
proof -
  let ?e = "(now - t) div 60000"
  let ?r = "max 0 (workDuration st * 60 - ?e * 60)"
  have e0: "0 \<le> ?e" using assms(2) by (simp add: pos_imp_zdiv_nonneg_iff)
  have tl: "timeLeft (checkActiveSession dv st (Inr (Some s)) now) = Some ?r"
    using assms(1) by (simp add: checkActiveSession_def remainingTime_def Let_def)
  have up: "?r \<le> workDuration st * 60" using e0 assms(3) by simp
  have z: "?r = 0" if "workDuration st * 60000 < now - t"
  proof -
    have "(workDuration st * 60000) div 60000 \<le> ?e"
      using that by (intro zdiv_mono1) simp_all
    then have "workDuration st \<le> ?e" by simp
    then show "?r = 0" by simp
  qed
  show ?thesis using tl up z by auto
qed

text \<open>Ten minutes into a 25 minute work phase, 900 seconds are left.\<close>

theorem C3_remaining_time_in_range_witness:
  "timeLeft (checkActiveSession example_Date_value example_timer (Inr (Some example_session))
      1704715800000) = Some 900"
proof -
  have a: "example_Date_value (start_time example_session) = Some 1704715200000"
    by (simp add: example_Date_value_def example_session_def)
  have b: "(1704715200000::int) \<le> 1704715800000" by simp
  have c: "0 < workDuration example_timer" by (simp add: example_timer_def)
  have w: "workDuration example_timer = 25" by (simp add: example_timer_def)
  show ?thesis
    using C3_remaining_time_in_range
            [of example_Date_value example_session 1704715200000 1704715800000 example_timer]
    by (auto simp add: a b c w)
qed

text \<open>
  Claim C4 says that a start time in the future, or one that does not parse, makes the
  reconciliation fail with an invalid-session-state error. \<^verbatim>\<open>checkActiveSession\<close> has no
  such check: for a session that starts one minute after the current time it adopts the
  session and sets 1560 seconds for a work phase of 1500.
\<close>

theorem C4_future_start_counterexample:
  "timeLeft (checkActiveSession example_Date_value example_timer (Inr (Some example_session))
      1704715140000) = Some 1560 \<and>
   currentSession (checkActiveSession example_Date_value example_timer
      (Inr (Some example_session)) 1704715140000) = Some example_session"
  by (simp add: checkActiveSession_def remainingTime_def example_Date_value_def example_timer_def
      example_session_def Let_def)

text \<open>
  Claim C4 as the code has it. For an open session whose start time is strictly in the
  future, \<^verbatim>\<open>checkActiveSession\<close> raises nothing: it adopts the session and sets a time
  left of at least \<open>workDuration * 60 + 60\<close> seconds, more than the configured phase. For
  a start time that does not parse it adopts the session and sets the time left to
  \<^verbatim>\<open>NaN\<close>.
\<close>

theorem C4_future_start_no_error:
  "(dv (start_time s) = Some t \<and> now < t \<longrightarrow>
      (\<exists>r. timeLeft (checkActiveSession dv st (Inr (Some s)) now) = Some r \<and>
            workDuration st * 60 + 60 \<le> r) \<and>
      currentSession (checkActiveSession dv st (Inr (Some s)) now) = Some s) \<and>
   (dv (start_time s) = None \<longrightarrow>
      timeLeft (checkActiveSession dv st (Inr (Some s)) now) = None \<and>
      currentSession (checkActiveSession dv st (Inr (Some s)) now) = Some s)"
proof (intro conjI impI)
  assume h: "dv (start_time s) = Some t \<and> now < t"
  let ?e = "(now - t) div 60000"
  have "?e < 0" using h by (simp add: div_neg_pos_less0)
  then have "?e \<le> -1" by simp
  then have "workDuration st * 60 + 60 \<le> max 0 (workDuration st * 60 - ?e * 60)" by simp
  then show "\<exists>r. timeLeft (checkActiveSession dv st (Inr (Some s)) now) = Some r \<and>
            workDuration st * 60 + 60 \<le> r"
    using h by (simp add: checkActiveSession_def remainingTime_def Let_def)
  show "currentSession (checkActiveSession dv st (Inr (Some s)) now) = Some s"
    by (simp add: checkActiveSession_def)
next
  assume "dv (start_time s) = None"
  then show "timeLeft (checkActiveSession dv st (Inr (Some s)) now) = None"
    by (simp add: checkActiveSession_def remainingTime_def)
  show "currentSession (checkActiveSession dv st (Inr (Some s)) now) = Some s"
    by (simp add: checkActiveSession_def)
qed

theorem C4_future_start_no_error_witness:
  "(\<exists>r. timeLeft (checkActiveSession example_Date_value example_timer
            (Inr (Some example_session)) 1704715080000) = Some r \<and> 1560 \<le> r) \<and>
   timeLeft (checkActiveSession example_Date_value example_timer
      (Inr (Some (example_session\<lparr>start_time := ''not a date''\<rparr>))) 1704715200000) = None"
proof -
  have a: "example_Date_value (start_time example_session) = Some 1704715200000"
    by (simp add: example_Date_value_def example_session_def)
  have n: "example_Date_value ''not a date'' = None"
    by (simp add: example_Date_value_def)
  have w: "workDuration example_timer = 25" by (simp add: example_timer_def)
  show ?thesis
    using C4_future_start_no_error
            [of example_Date_value example_session 1704715200000 1704715080000 example_timer]
      C4_future_start_no_error
            [of example_Date_value "example_session\<lparr>start_time := ''not a date''\<rparr>" 0
                1704715200000 example_timer]
    by (simp add: a n w)
qed

section \<open>The analytics page\<close>

text \<open>A session object has no member \<^verbatim>\<open>completedAt\<close>, so the filter keeps nothing.\<close>

lemma completedAt_undefined: "get_member s ''completedAt'' = None"
  by (simp add: get_member_def StudySession_row_def)

lemma filteredSessions_empty: "filteredSessions h tr now ss = []"
  by (simp add: filteredSessions_def completedAt_undefined truthy_def)

lemma round1_zero: "round1 (Some 0) = Some 0"
proof -
  have "\<lfloor>1 / 2 :: rat\<rfloor> = 0" by (rule floor_unique) simp_all
  then show ?thesis by (simp add: round1_def)
qed

lemma studyHours_entry_zero:
  "studyHours_entry h tr now [] i =
     \<lparr>day = (if tr = Week then h_weekday_short h (now - int i * day_ms)
              else h_month_day h (now - int i * day_ms)),
      hours = Some 0, d_sessions = 0\<rparr>"
  by (simp add: studyHours_entry_def Let_def round1_zero)

text \<open>
  The week view of every host, clock and list of stored sessions: seven entries, oldest
  first, all with 0 hours and 0 sessions.
\<close>

lemma week_series:
  "compute_studyHoursData h Week now ss =
     map (\<lambda>i. \<lparr>day = h_weekday_short h (now - i * day_ms), hours = Some 0, d_sessions = 0\<rparr>)
       [6, 5, 4, 3, 2, 1, 0]"
proof -
  have n: "daysToShow Week = Suc (Suc (Suc (Suc (Suc (Suc (Suc 0))))))"
    by (simp add: daysToShow_def)
  show ?thesis
    unfolding compute_studyHoursData_def filteredSessions_empty n studyHours_loop.simps
      studyHours_entry_zero
    by simp
qed

text \<open>
  Claim C6 says that the week view has seven entries, each with the hours of that day's
  closed sessions. Evaluated on Monday 2024-01-08 with one stored session of 60 minutes
  that was closed on that day, the loop of \<^verbatim>\<open>loadAnalyticsData\<close> yields seven entries,
  Tuesday to Monday, and Monday has 0 hours and 0 sessions where the claim has 1 hour
  and 1 session: the loop reads \<^verbatim>\<open>completedAt\<close> and \<^verbatim>\<open>totalFocusMinutes\<close>, which a stored
  session does not have (it has \<^verbatim>\<open>end_time\<close> and \<^verbatim>\<open>duration\<close>). The series that the page
  ends up with is empty, because \<^verbatim>\<open>user.stats.tasksCompleted\<close> throws after the loop and
  the \<^verbatim>\<open>catch\<close> block installs the fallback data.
\<close>

theorem C6_daily_hours_ignore_stored_sessions:
  "compute_studyHoursData example_host Week 1704715200000 [closed_session] =
     [\<lparr>day = ''Tue'', hours = Some 0, d_sessions = 0\<rparr>,
      \<lparr>day = ''Wed'', hours = Some 0, d_sessions = 0\<rparr>,
      \<lparr>day = ''Thu'', hours = Some 0, d_sessions = 0\<rparr>,
      \<lparr>day = ''Fri'', hours = Some 0, d_sessions = 0\<rparr>,
      \<lparr>day = ''Sat'', hours = Some 0, d_sessions = 0\<rparr>,
      \<lparr>day = ''Sun'', hours = Some 0, d_sessions = 0\<rparr>,
      \<lparr>day = ''Mon'', hours = Some 0, d_sessions = 0\<rparr>] \<and>
   studyHoursData (loadAnalyticsData example_host Week example_user 1704715200000
      (Inr (zero_analytics ''user-1'', [closed_session]))) = []"
  by (simp add: week_series example_host_def day_ms_def
      loadAnalyticsData_def loadAnalyticsData_try_def fallback_data_def Let_def)

text \<open>
  Claim C7 says that a failed fetch yields the full zero-filled daily series and streak
  calendar. After a timeout the daily series of the week view does not have seven
  entries, and the streak calendar does not have thirty.
\<close>

theorem C7_fallback_series_counterexample:
  "length (studyHoursData (loadAnalyticsData example_host Week example_user 1704715200000
      (Inl TimeoutError))) \<noteq> 7 \<and>
   length (streakData (loadAnalyticsData example_host Week example_user 1704715200000
      (Inl TimeoutError))) \<noteq> 30"
  by (simp add: loadAnalyticsData_def loadAnalyticsData_try_def fallback_data_def)

text \<open>
  Claim C7 as the code has it. For every failure \<open>e\<close> of the fetch (an error or the
  timeout) \<^verbatim>\<open>loadAnalyticsData\<close> does not pass the error on: it sets the fallback data,
  in which every member is defined, all statistics are 0, the completion split is 0 and
  100, and the daily series, the session list and the streak calendar are empty.
\<close>

theorem C7_fetch_failure_fallback:
  "loadAnalyticsData h tr user now (Inl e) = fallback_data \<and>
   studyHoursData fallback_data = [] \<and> streakData fallback_data = [] \<and>
   sessionData fallback_data = [] \<and>
   map (\<lambda>s. (ts_name s, ts_value s)) (taskCompletionData fallback_data) =
     [(''Completed'', 0), (''Pending'', 100)] \<and>
   stats fallback_data =
     \<lparr>totalStudyTime = 0, tasksCompleted = 0, cardsMastered = 0, studyStreak = 0,
      totalSessions = 0, avgSessionLength = 0, thisWeekHours = 0, thisWeekSessions = 0\<rparr>"
  by (simp add: loadAnalyticsData_def loadAnalyticsData_try_def fallback_data_def)

end
